theory Spec2Isabelle
  imports Main "HOL-Library.Word" "HOL-Library.Multiset" "HOL-Library.AList"
begin

section \<open>Event viewer: the bounded in-memory event list\<close>

text \<open>
  The event viewer keeps the received events in the array \<open>events\<close>. The stream's
  callbacks are the only writers:
  \<^verbatim>\<open>
  es.onopen = () => { events = []; };
  es.onerror = () => { console.error(...) };
  es.onmessage = ev => {
      if (ev.data) {
          let event = JSON.parse(ev.data);
          events = [event, ...events.slice(-499)];
      }
  };
  \<close>
  An event is kept abstract (\<open>'e\<close>); \<open>JSON.parse\<close> is a parameter that yields
  \<open>None\<close> where the JavaScript function throws, in which case the assignment is
  never reached and the list stays as it was.
\<close>

definition slice_from_end :: "nat \<Rightarrow> 'a list \<Rightarrow> 'a list" where
  \<comment> \<open>\<open>xs.slice(-n)\<close>: the start index is \<open>max (length - n) 0\<close>.\<close>
  "slice_from_end n xs = drop (length xs - n) xs"

definition onmessage :: "(string \<Rightarrow> 'e option) \<Rightarrow> string \<Rightarrow> 'e list \<Rightarrow> 'e list" where
  "onmessage JSON_parse data events =
     (if data \<noteq> [] then
        (case JSON_parse data of
           None \<Rightarrow> events
         | Some event \<Rightarrow> event # slice_from_end 499 events)
      else events)"

definition onopen :: "'e list \<Rightarrow> 'e list" where
  "onopen events = []"

definition onerror :: "'e list \<Rightarrow> 'e list" where
  "onerror events = events"

datatype stream_callback = Open | Error | Message string

fun stream_step :: "(string \<Rightarrow> 'e option) \<Rightarrow> 'e list \<Rightarrow> stream_callback \<Rightarrow> 'e list" where
  "stream_step JSON_parse events Open = onopen events"
| "stream_step JSON_parse events Error = onerror events"
| "stream_step JSON_parse events (Message data) = onmessage JSON_parse data events"

definition stream_run :: "(string \<Rightarrow> 'e option) \<Rightarrow> stream_callback list \<Rightarrow> 'e list" where
  \<comment> \<open>\<open>let events = $state([])\<close>, then the callbacks in the order they fire.\<close>
  "stream_run JSON_parse cbs = foldl (stream_step JSON_parse) [] cbs"


section \<open>Text-safe binary encoding\<close>

text \<open>
  The page imports \<open>arrBufToBase64UrlSafe\<close> and \<open>base64UrlSafeToArrBuf\<close> from
  \<^verbatim>\<open>utils/helpers.js\<close>, which is not among the examined sources.
\<close>

type_synonym byte = "8 word"

definition base64url_alphabet :: string where
  \<comment> \<open>Modelled from the spec: \<^verbatim>\<open>helpers.js\<close> is missing. The text-safe alphabet,
      in the order of the six-bit values 0 to 63.\<close>
  "base64url_alphabet =
     ''ABCDEFGHIJKLMNOPQRSTUVWXYZabcdefghijklmnopqrstuvwxyz0123456789-_''"

fun sextets_of_bytes :: "byte list \<Rightarrow> nat list" where
  \<comment> \<open>Modelled from the spec: \<^verbatim>\<open>helpers.js\<close> is missing. Three bytes give four
      six-bit values; one or two bytes left over give two or three, the unused low
      bits zero.\<close>
  "sextets_of_bytes [] = []"
| "sextets_of_bytes [a] = [unat a div 4, (unat a mod 4) * 16]"
| "sextets_of_bytes [a, b] =
     [unat a div 4, (unat a mod 4) * 16 + unat b div 16, (unat b mod 16) * 4]"
| "sextets_of_bytes (a # b # c # rest) =
     [unat a div 4, (unat a mod 4) * 16 + unat b div 16,
      (unat b mod 16) * 4 + unat c div 64, unat c mod 64] @ sextets_of_bytes rest"

definition arrBufToBase64UrlSafe :: "byte list \<Rightarrow> string" where
  \<comment> \<open>Modelled from the spec: \<^verbatim>\<open>helpers.js\<close> is missing. The spec's glossary calls the
      encoding a reversible mapping of raw binary data into characters safe for URLs
      and JSON; the function's name fixes it as base64 with the URL-safe alphabet,
      taken here without padding.\<close>
  "arrBufToBase64UrlSafe buffer = map (\<lambda>i. base64url_alphabet ! i) (sextets_of_bytes buffer)"

fun index_of :: "'a \<Rightarrow> 'a list \<Rightarrow> nat option" where
  \<comment> \<open>Modelled from the spec: \<^verbatim>\<open>helpers.js\<close> is missing. The six-bit value of a
      character is its position in the alphabet.\<close>
  "index_of c [] = None"
| "index_of c (x # xs) = (if c = x then Some 0 else map_option Suc (index_of c xs))"

fun bytes_of_sextets :: "nat list \<Rightarrow> byte list option" where
  \<comment> \<open>Modelled from the spec: \<^verbatim>\<open>helpers.js\<close> is missing. Four six-bit values give
      three bytes; two or three left over give one or two bytes and their unused low
      bits are dropped; a single one left over is no encoding.\<close>
  "bytes_of_sextets [] = Some []"
| "bytes_of_sextets [a] = None"
| "bytes_of_sextets [a, b] = Some [of_nat (a * 4 + b div 16)]"
| "bytes_of_sextets [a, b, c] =
     Some [of_nat (a * 4 + b div 16), of_nat ((b mod 16) * 16 + c div 4)]"
| "bytes_of_sextets (a # b # c # d # rest) =
     map_option
       (\<lambda>bs. [of_nat (a * 4 + b div 16), of_nat ((b mod 16) * 16 + c div 4),
              of_nat ((c mod 4) * 64 + d)] @ bs)
       (bytes_of_sextets rest)"

definition base64UrlSafeToArrBuf :: "string \<Rightarrow> byte list option" where
  \<comment> \<open>Modelled from the spec: \<^verbatim>\<open>helpers.js\<close> is missing. The inverse mapping of
      \<open>arrBufToBase64UrlSafe\<close>; \<open>None\<close> stands for the exception a decoder raises on a
      character outside the alphabet or on a length that no encoding has.\<close>
  "base64UrlSafeToArrBuf base64url =
     (case those (map (\<lambda>c. index_of c base64url_alphabet) base64url) of
        None \<Rightarrow> None
      | Some sextets \<Rightarrow> bytes_of_sextets sextets)"

section \<open>Password policy\<close>

text \<open>
  The policy is read once in \<open>onMount\<close> with \<open>Number.parseInt\<close> from the page's
  embedded data; the seven fields are integers.
\<close>

record password_policy =
  length_min :: int
  length_max :: int
  include_lower_case :: int
  include_upper_case :: int
  include_digits :: int
  include_special :: int
  not_recently_used :: int

text \<open>
  Modelled from the spec: the character classes of a policy are those of section
  4.1 (lower case, upper case, digits, special); the members of the special
  class are not given there and are fixed here.
\<close>

definition lower_case_letters :: string where
  "lower_case_letters = ''abcdefghijklmnopqrstuvwxyz''"

definition upper_case_letters :: string where
  "upper_case_letters = ''ABCDEFGHIJKLMNOPQRSTUVWXYZ''"

definition digit_chars :: string where
  "digit_chars = ''0123456789''"

definition special_chars :: string where
  "special_chars = ''!#$%&*+-=?@^_''"

definition full_alphabet :: string where
  "full_alphabet = lower_case_letters @ upper_case_letters @ digit_chars @ special_chars"

datatype rule = LengthMin | LengthMax | LowerCase | UpperCase | Digits | Special

definition has_char_of :: "string \<Rightarrow> string \<Rightarrow> bool" where
  \<comment> \<open>Modelled from the spec: presence of at least one character of a class.\<close>
  "has_char_of cls pwd = (\<exists>c \<in> set pwd. c \<in> set cls)"

definition validate_policy :: "string \<Rightarrow> password_policy \<Rightarrow> rule list" where
  \<comment> \<open>Modelled from the spec: the policy check lives in the component
      \<^verbatim>\<open>PasswordPolicy.svelte\<close>, which is missing. Section 4.1: the rules checked are
      length within \<open>[lengthMin, lengthMax]\<close> and presence of at least one character
      from each character class whose policy count is greater than 0.\<close>
  "validate_policy pwd P =
     (if int (length pwd) < length_min P then [LengthMin] else []) @
     (if int (length pwd) > length_max P then [LengthMax] else []) @
     (if include_lower_case P > 0 \<and> \<not> has_char_of lower_case_letters pwd then [LowerCase] else []) @
     (if include_upper_case P > 0 \<and> \<not> has_char_of upper_case_letters pwd then [UpperCase] else []) @
     (if include_digits P > 0 \<and> \<not> has_char_of digit_chars pwd then [Digits] else []) @
     (if include_special P > 0 \<and> \<not> has_char_of special_chars pwd then [Special] else [])"

definition pick :: "string \<Rightarrow> nat \<Rightarrow> char" where
  \<comment> \<open>Modelled from the spec: one character drawn from a class with the random
      number \<open>r\<close>.\<close>
  "pick cls r = cls ! (r mod length cls)"

primrec shuffle_steps :: "nat \<Rightarrow> (nat \<Rightarrow> nat) \<Rightarrow> 'a list \<Rightarrow> 'a list" where
  \<comment> \<open>Modelled from the spec: the shuffle; each step moves one randomly chosen
      element of what is left to the result.\<close>
  "shuffle_steps 0 rnd xs = []"
| "shuffle_steps (Suc n) rnd xs =
     (case xs of
        [] \<Rightarrow> []
      | _ # _ \<Rightarrow>
          (let i = rnd n mod length xs
           in xs ! i # shuffle_steps n rnd (take i xs @ drop (Suc i) xs)))"

definition shuffle :: "(nat \<Rightarrow> nat) \<Rightarrow> 'a list \<Rightarrow> 'a list" where
  \<comment> \<open>Modelled from the spec: see \<open>shuffle_steps\<close>.\<close>
  "shuffle rnd xs = shuffle_steps (length xs) rnd xs"

definition generatePassword :: "(nat \<Rightarrow> nat) \<Rightarrow> int \<Rightarrow> int \<Rightarrow> int \<Rightarrow> int \<Rightarrow> int \<Rightarrow> string" where
  \<comment> \<open>Modelled from the spec: \<^verbatim>\<open>helpers.js\<close> is missing. Section 4.1: characters are
      drawn independently per required class, then the remainder is filled from the
      full allowed alphabet and shuffled. The random source is the stream \<open>rnd\<close>.\<close>
  "generatePassword rnd len lower upper digits special =
     (let required_chars =
            (if lower > 0 then [pick lower_case_letters (rnd 0)] else []) @
            (if upper > 0 then [pick upper_case_letters (rnd 1)] else []) @
            (if digits > 0 then [pick digit_chars (rnd 2)] else []) @
            (if special > 0 then [pick special_chars (rnd 3)] else []);
          remainder =
            map (\<lambda>i. pick full_alphabet (rnd (4 + i)))
              [0 ..< nat len - length required_chars]
      in shuffle (\<lambda>i. rnd (4 + nat len + i)) (required_chars @ remainder))"


section \<open>The password-reset and enrolment page\<close>

subsection \<open>Data\<close>

record form_values =
  passkeyName :: string
  password :: string
  passwordConfirm :: string

definition empty_form :: form_values where
  "empty_form = \<lparr>passkeyName = [], password = [], passwordConfirm = []\<rparr>"

text \<open>The translated texts \<open>t\<close> the handlers read.\<close>

record mfa_texts =
  errorReg :: string
  passkeyNameErr :: string

record i18n =
  required :: string
  passwordNoMatch :: string
  mfa :: mfa_texts

text \<open>
  \<open>challenge.publicKey\<close> as far as the page touches it; \<open>'b\<close> is \<open>string\<close> on the
  wire and \<open>byte list\<close> once decoded for the platform ceremony. \<open>pk_user_id\<close> is
  \<open>publicKey.user.id\<close>, \<open>excludeCredentials\<close> holds the \<open>id\<close> of each entry.
\<close>

record 'b public_key =
  challenge :: 'b
  pk_user_id :: 'b
  excludeCredentials :: "'b list option"
  userVerification :: string

text \<open>The credential returned by \<open>navigator.credentials.create\<close>.\<close>

record credential =
  cred_id :: string
  rawId :: "byte list"
  attestationObject :: "byte list"
  clientDataJSON :: "byte list"
  cred_type :: string

text \<open>The \<open>data\<close> member of the payload sent to finish the registration.\<close>

record credential_wire =
  w_id :: string
  w_rawId :: string
  w_attestationObject :: string
  w_clientDataJSON :: string
  w_type :: string

text \<open>
  A fetch response: its status, its \<open>Location\<close> header (\<open>headers.get\<close> yields
  \<open>null\<close> when there is none) and what \<open>res.json()\<close> gives: \<open>None\<close> where the
  body is not JSON and the promise is rejected. A member the parsed body does not
  have is \<open>undefined\<close> in JavaScript, \<open>None\<close> here.
\<close>

record json_body =
  message :: string
  user_id :: "string option"
  publicKey :: "string public_key option"

record response =
  status :: nat
  headers_Location :: "string option"
  body :: "json_body option"

definition ok :: "response \<Rightarrow> bool" where
  \<comment> \<open>\<open>Response.ok\<close>: the status is in the range 200 to 299.\<close>
  "ok res = (200 \<le> status res \<and> status res \<le> 299)"

text \<open>The network boundary: one constructor per function of \<^verbatim>\<open>dataFetching.js\<close>.\<close>

datatype net_call =
    WebauthnAuthStart string string
  | ResetPassword string string string "string option" string
  | WebauthnRegStartAccReset string string string string
  | WebauthnRegFinishAccReset string string credential_wire string string

record webauthn_success =
  code :: "string option"

text \<open>
  The component's variables. \<open>calls\<close> and \<open>timers\<close> are not variables of the source:
  they record, in order, the network functions invoked and the delays passed to
  \<open>setTimeout\<close>.
\<close>

record page =
  t :: i18n
  csrf :: string
  policy :: password_policy
  isMfa :: bool
  isLoading :: bool
  err :: string
  userId :: string
  requestType :: string
  accountTypeNew :: string
  magicLinkId :: string
  redirectUri :: "string option"
  success :: bool
  accepted :: bool
  showCopy :: bool
  webauthnData :: "json_body option"
  formValues :: form_values
  formErrors :: "(string \<times> string) list"
  calls :: "net_call list"
  timers :: "nat list"

definition mount ::
  "i18n \<Rightarrow> string \<Rightarrow> password_policy \<Rightarrow> bool \<Rightarrow> string \<Rightarrow> string \<Rightarrow> string \<Rightarrow> page" where
  \<comment> \<open>The declarations' initial values, then \<open>onMount\<close>.\<close>
  "mount texts csrf_token pol mfa_flag uid link_id req_type =
     \<lparr>t = texts, csrf = csrf_token, policy = pol, isMfa = mfa_flag, isLoading = False,
      err = [], userId = uid, requestType = req_type, accountTypeNew = [],
      magicLinkId = link_id, redirectUri = None, success = False, accepted = False,
      showCopy = False, webauthnData = None, formValues = empty_form, formErrors = [],
      calls = [], timers = []\<rparr>"

subsection \<open>Form schemas\<close>

text \<open>
  \<open>schema.validate(formValues, {abortEarly: false})\<close> collects one error per failed
  test, as pairs of path and message; the empty list is a valid form. A yup string
  that is \<open>required\<close> rejects the empty string.
\<close>

definition schemaPassword_validate :: "i18n \<Rightarrow> form_values \<Rightarrow> (string \<times> string) list" where
  "schemaPassword_validate texts fv =
     (if password fv = [] then [(''password'', required texts)] else []) @
     (if passwordConfirm fv = [] then [(''passwordConfirm'', required texts)] else [])"

definition schemaPasskey_validate ::
  "(string \<Rightarrow> bool) \<Rightarrow> i18n \<Rightarrow> form_values \<Rightarrow> (string \<times> string) list" where
  \<comment> \<open>\<open>REGEX_NAME\<close> is a constant of \<^verbatim>\<open>constants.js\<close>, taken as the parameter
      \<open>REGEX_NAME_test\<close>.\<close>
  "schemaPasskey_validate REGEX_NAME_test texts fv =
     (if passkeyName fv = [] then [(''passkeyName'', required texts)] else []) @
     (if \<not> REGEX_NAME_test (passkeyName fv)
      then [(''passkeyName'', passkeyNameErr (mfa texts))] else [])"

definition extractFormErrors :: "(string \<times> string) list \<Rightarrow> (string \<times> string) list" where
  \<comment> \<open>Modelled from the spec: \<^verbatim>\<open>helpers.js\<close> is missing. Section 4.2: a map of field
      to error message; a later message for the same field replaces the earlier.\<close>
  "extractFormErrors inner = foldl (\<lambda>acc (path, msg). AList.update path msg acc) [] inner"

subsection \<open>Handlers\<close>

text \<open>
  The handlers are asynchronous functions and none of them catches what an awaited
  call throws: where \<open>res.json()\<close>, the decoding of a challenge or the platform
  ceremony throws, the handler's promise is rejected and the variables keep the
  values they had then (\<open>Inl\<close>); otherwise the handler returns (\<open>Inr\<close>). The
  functions of the network boundary are taken to resolve with a response. Each
  handler is run to its end before the next event.
\<close>

datatype js_error = TypeError | SyntaxError | InvalidCharacterError | CeremonyRejected

type_synonym outcome = "(js_error \<times> page) + page"

definition settled :: "outcome \<Rightarrow> page" where
  \<comment> \<open>The page once the handler's promise is settled, fulfilled or rejected.\<close>
  "settled r = (case r of Inl (e, s) \<Rightarrow> s | Inr s \<Rightarrow> s)"

definition navigateToAccount :: string where
  "navigateToAccount = ''/auth/v1/account''"

definition generate :: "(nat \<Rightarrow> nat) \<Rightarrow> page \<Rightarrow> page" where
  "generate rnd s =
     (let len = (if length_min (policy s) > 24 then length_min (policy s) else 24);
          pwd = generatePassword rnd len
                  (include_lower_case (policy s)) (include_upper_case (policy s))
                  (include_digits (policy s)) (include_special (policy s))
      in s\<lparr>formValues := (formValues s)\<lparr>password := pwd, passwordConfirm := pwd\<rparr>\<rparr>)"

definition onWebauthnError :: "page \<Rightarrow> page" where
  "onWebauthnError s = s\<lparr>webauthnData := None, err := errorReg (mfa (t s))\<rparr>"

definition onSubmitFinish :: "string option \<Rightarrow> response \<Rightarrow> page \<Rightarrow> outcome" where
  \<comment> \<open>\<open>res\<close> is what \<open>resetPassword\<close> resolves to. The last statement,
      \<open>isLoading = false\<close>, is written into both branches that reach it.\<close>
  "onSubmitFinish mfaCode res s =
     (let s1 = s\<lparr>isLoading := True\<rparr>;
          s2 = s1\<lparr>calls := calls s1 @
                     [ResetPassword (userId s1) (password (formValues s1)) (magicLinkId s1)
                        mfaCode (csrf s1)]\<rparr>
      in if ok res
         then Inr (s2\<lparr>err := [], formValues := empty_form,
                      redirectUri := headers_Location res, success := True,
                      isLoading := False\<rparr>)
         else (case body res of
                 None \<Rightarrow> Inl (SyntaxError, s2)
               | Some b \<Rightarrow> Inr (s2\<lparr>err := message b, isLoading := False\<rparr>)))"

definition onWebauthnSuccess :: "webauthn_success option \<Rightarrow> response \<Rightarrow> page \<Rightarrow> outcome" where
  "onWebauthnSuccess res resetRes s =
     (case res of
        None \<Rightarrow> Inr s
      | Some r \<Rightarrow> onSubmitFinish (code r) resetRes (s\<lparr>webauthnData := None\<rparr>))"

definition passwordReset :: "response \<Rightarrow> response \<Rightarrow> page \<Rightarrow> outcome" where
  \<comment> \<open>\<open>authRes\<close> is what \<open>webauthnAuthStart\<close> resolves to and \<open>resetRes\<close> what
      \<open>resetPassword\<close> resolves to, each read only where the call is made.\<close>
  "passwordReset authRes resetRes s =
     (let inner = schemaPassword_validate (t s) (formValues s) in
      if inner \<noteq> [] then Inr (s\<lparr>formErrors := extractFormErrors inner\<rparr>)
      else
        let s1 = s\<lparr>formErrors := []\<rparr> in
        if \<not> accepted s1 then Inr s1
        else if length (password (formValues s1)) > 256 then Inr (s1\<lparr>err := ''max 256''\<rparr>)
        else if password (formValues s1) \<noteq> passwordConfirm (formValues s1)
          then Inr (s1\<lparr>err := passwordNoMatch (t s1)\<rparr>)
        else
          let s2 = s1\<lparr>err := []\<rparr> in
          if isMfa s2 then
            let s3 = s2\<lparr>calls := calls s2 @ [WebauthnAuthStart (userId s2) ''PasswordReset'']\<rparr>
            in (case body authRes of
                  None \<Rightarrow> Inl (SyntaxError, s3)
                | Some b \<Rightarrow>
                    if \<not> ok authRes
                    then Inr (s3\<lparr>err := message b, isLoading := False\<rparr>)
                    else if user_id b \<noteq> Some (userId s3)
                    then Inr (s3\<lparr>err := ''MFA user ID does not match - this should never happen'',
                                 isLoading := False\<rparr>)
                    else Inr (s3\<lparr>webauthnData := Some b\<rparr>))
          else onSubmitFinish None resetRes s2)"

definition decode_public_key :: "string public_key \<Rightarrow> byte list public_key option" where
  \<comment> \<open>The statements of \<open>handleRegisterPasskey\<close> that prepare the challenge: user
      verification is forced to \<open>required\<close>, then \<open>challenge\<close>, \<open>user.id\<close> and the
      \<open>id\<close> of every excluded credential are decoded; \<open>None\<close> where a decoding
      throws.\<close>
  "decode_public_key pk =
     (case base64UrlSafeToArrBuf (challenge pk) of
        None \<Rightarrow> None
      | Some ch \<Rightarrow>
          (case base64UrlSafeToArrBuf (pk_user_id pk) of
             None \<Rightarrow> None
           | Some uid \<Rightarrow>
               (case excludeCredentials pk of
                  None \<Rightarrow>
                    Some \<lparr>challenge = ch, pk_user_id = uid, excludeCredentials = None,
                          userVerification = ''required''\<rparr>
                | Some creds \<Rightarrow>
                    (case those (map base64UrlSafeToArrBuf creds) of
                       None \<Rightarrow> None
                     | Some ids \<Rightarrow>
                         Some \<lparr>challenge = ch, pk_user_id = uid,
                               excludeCredentials = Some ids,
                               userVerification = ''required''\<rparr>))))"

definition encode_credential :: "credential \<Rightarrow> credential_wire" where
  \<comment> \<open>The \<open>data\<close> object built from the credential \<open>challengePk\<close>.\<close>
  "encode_credential challengePk =
     \<lparr>w_id = cred_id challengePk,
      w_rawId = arrBufToBase64UrlSafe (rawId challengePk),
      w_attestationObject = arrBufToBase64UrlSafe (attestationObject challengePk),
      w_clientDataJSON = arrBufToBase64UrlSafe (clientDataJSON challengePk),
      w_type = cred_type challengePk\<rparr>"

definition handleRegisterPasskey ::
  "(string \<Rightarrow> bool) \<Rightarrow> response \<Rightarrow> (byte list public_key \<Rightarrow> credential option) \<Rightarrow>
   response \<Rightarrow> page \<Rightarrow> outcome" where
  \<comment> \<open>\<open>startRes\<close> and \<open>finishRes\<close> are what the two registration calls resolve to;
      \<open>credentials_create\<close> is the platform ceremony, \<open>None\<close> where it rejects.\<close>
  "handleRegisterPasskey REGEX_NAME_test startRes credentials_create finishRes s =
     (let s0 = s\<lparr>err := []\<rparr>;
          inner = schemaPasskey_validate REGEX_NAME_test (t s0) (formValues s0) in
      if inner \<noteq> [] then Inr (s0\<lparr>formErrors := extractFormErrors inner\<rparr>)
      else
        let s1 = s0\<lparr>formErrors := []\<rparr>;
            name = passkeyName (formValues s1) in
        if length name < 2 then Inr (s1\<lparr>err := passkeyNameErr (mfa (t s1))\<rparr>)
        else
          let s2 = s1\<lparr>calls := calls s1 @
                     [WebauthnRegStartAccReset (userId s1) name (magicLinkId s1) (csrf s1)]\<rparr>
          in if status startRes = 200 then
               (case body startRes of
                  None \<Rightarrow> Inl (SyntaxError, s2)
                | Some challenge_json \<Rightarrow>
                    (case publicKey challenge_json of
                       None \<Rightarrow> Inl (TypeError, s2)
                     | Some pk \<Rightarrow>
                         (case decode_public_key pk of
                            None \<Rightarrow> Inl (InvalidCharacterError, s2)
                          | Some decoded \<Rightarrow>
                              (case credentials_create decoded of
                                 None \<Rightarrow> Inl (CeremonyRejected, s2)
                               | Some challengePk \<Rightarrow>
                                   (let s3 = s2\<lparr>calls := calls s2 @
                                               [WebauthnRegFinishAccReset (userId s2) name
                                                  (encode_credential challengePk)
                                                  (magicLinkId s2) (csrf s2)]\<rparr>
                                    in if status finishRes = 201
                                       then Inr (s3\<lparr>formValues := empty_form, success := True\<rparr>)
                                       else Inr (onWebauthnError s3))))))
             else (case body startRes of
                     None \<Rightarrow> Inl (SyntaxError, onWebauthnError s2)
                   | Some b \<Rightarrow> Inr (onWebauthnError s2)))"

subsection \<open>Reactive blocks and the page as a transition system\<close>

definition redirect_target :: "page \<Rightarrow> string" where
  \<comment> \<open>The callback given to \<open>setTimeout\<close>: the argument of \<open>window.location.replace\<close>.
      \<open>if (redirectUri)\<close> is false for \<open>null\<close>, \<open>undefined\<close> and the empty string.\<close>
  "redirect_target s =
     (case redirectUri s of
        None \<Rightarrow> navigateToAccount
      | Some uri \<Rightarrow> if uri \<noteq> [] then uri else navigateToAccount)"

definition react :: "page \<Rightarrow> page \<Rightarrow> page" where
  \<comment> \<open>The \<open>run\<close> blocks, in the order of the source, after a handler took the page
      from \<open>before\<close> to \<open>after\<close>. A block runs again when a variable it reads has
      changed.\<close>
  "react before after =
     (let s1 = (if accountTypeNew after \<noteq> accountTypeNew before \<and> accountTypeNew after \<noteq> []
                then after\<lparr>formValues := empty_form\<rparr> else after);
          s2 = (if length (password (formValues s1)) > 0
                   \<and> password (formValues s1) = passwordConfirm (formValues s1)
                then s1\<lparr>showCopy := True\<rparr> else s1)
      in if success s2 \<and> \<not> success before
         then s2\<lparr>timers := timers s2 @ [5000]\<rparr> else s2)"

text \<open>
  The events of the page: what the user does in the form, what the policy
  component reports through \<open>bind:accepted\<close>, and the two callbacks of the
  \<open>WebauthnRequest\<close> component, which the template renders only while
  \<open>webauthnData\<close> is set. Each event carries what the network and the platform
  answer if the handler asks.
\<close>

datatype event =
    EditForm form_values
  | PolicyAccepted bool
  | ChooseAccountType string
  | ClickGenerate "nat \<Rightarrow> nat"
  | ClickSave response response
  | WebauthnSuccess "webauthn_success option" response
  | WebauthnError
  | ClickRegister "string \<Rightarrow> bool" response "byte list public_key \<Rightarrow> credential option" response

fun handler_outcome :: "event \<Rightarrow> page \<Rightarrow> outcome" where
  "handler_outcome (EditForm fv) s = Inr (s\<lparr>formValues := fv\<rparr>)"
| "handler_outcome (PolicyAccepted b) s = Inr (s\<lparr>accepted := b\<rparr>)"
| "handler_outcome (ChooseAccountType a) s = Inr (s\<lparr>accountTypeNew := a\<rparr>)"
| "handler_outcome (ClickGenerate rnd) s = Inr (generate rnd s)"
| "handler_outcome (ClickSave authRes resetRes) s = passwordReset authRes resetRes s"
| "handler_outcome (WebauthnSuccess res resetRes) s =
     (if webauthnData s \<noteq> None then onWebauthnSuccess res resetRes s else Inr s)"
| "handler_outcome WebauthnError s =
     (if webauthnData s \<noteq> None then Inr (onWebauthnError s) else Inr s)"
| "handler_outcome (ClickRegister rx startRes create finishRes) s =
     handleRegisterPasskey rx startRes create finishRes s"

definition handle :: "event \<Rightarrow> page \<Rightarrow> page" where
  "handle ev s = settled (handler_outcome ev s)"

definition step :: "page \<Rightarrow> event \<Rightarrow> page" where
  "step s ev = react s (handle ev s)"

definition run_events :: "page \<Rightarrow> event list \<Rightarrow> page" where
  "run_events s evs = foldl step s evs"

fun all_return :: "page \<Rightarrow> event list \<Rightarrow> bool" where
  \<comment> \<open>No handler of the run ends in a rejected promise.\<close>
  "all_return s [] = True"
| "all_return s (ev # evs) = (\<not> isl (handler_outcome ev s) \<and> all_return (step s ev) evs)"

section \<open>Concrete inputs\<close>

text \<open>
  The inputs at which the theorems below are evaluated: the policy of the comment
  in \<open>onMount\<close> (\<open>10, 128, 1, 1, 1, 1, 3\<close>), a page mounted for a password
  reset, and responses of the network boundary.
\<close>

definition example_texts :: i18n where
  "example_texts =
     \<lparr>required = ''Required'', passwordNoMatch = ''Passwords do not match'',
      mfa = \<lparr>errorReg = ''Error starting the Registration process'',
             passkeyNameErr = ''Invalid passkey name''\<rparr>\<rparr>"

definition example_policy :: password_policy where
  "example_policy =
     \<lparr>length_min = 10, length_max = 128, include_lower_case = 1, include_upper_case = 1,
      include_digits = 1, include_special = 1, not_recently_used = 3\<rparr>"

definition example_page :: page where
  "example_page =
     mount example_texts ''csrf'' example_policy False ''user-1'' ''link-1'' ''password_reset''"

definition filled_page :: "string \<Rightarrow> string \<Rightarrow> bool \<Rightarrow> bool \<Rightarrow> page" where
  \<comment> \<open>The example page after the user typed both passwords; \<open>acc\<close> is what the policy
      component reported, \<open>mfa_flag\<close> the MFA flag read in \<open>onMount\<close>.\<close>
  "filled_page pwd confirm acc mfa_flag =
     example_page\<lparr>formValues := \<lparr>passkeyName = [], password = pwd, passwordConfirm = confirm\<rparr>,
                  accepted := acc, isMfa := mfa_flag\<rparr>"

definition example_response :: "nat \<Rightarrow> string option \<Rightarrow> string option \<Rightarrow> response" where
  "example_response st loc uid =
     \<lparr>status = st, headers_Location = loc,
      body = Some \<lparr>message = ''server message'', user_id = uid, publicKey = None\<rparr>\<rparr>"

definition bad_gateway :: response where
  \<comment> \<open>An error page of a proxy in front of the server: the body is not JSON.\<close>
  "bad_gateway = \<lparr>status = 502, headers_Location = None, body = None\<rparr>"

definition long_password :: string where
  "long_password = replicate 257 (CHR ''a'')"

definition example_challenge :: "string public_key" where
  "example_challenge =
     \<lparr>challenge = ''QUJD'', pk_user_id = ''QQ'', excludeCredentials = Some [''QUI''],
      userVerification = ''preferred''\<rparr>"

definition example_credential :: credential where
  "example_credential =
     \<lparr>cred_id = ''AQID'', rawId = [1, 2, 3], attestationObject = [255], clientDataJSON = [65, 66],
      cred_type = ''public-key''\<rparr>"

definition example_start_response :: response where
  "example_start_response =
     \<lparr>status = 200, headers_Location = None,
      body = Some \<lparr>message = [], user_id = None, publicKey = Some example_challenge\<rparr>\<rparr>"

section \<open>Event viewer: the bound on the event list\<close>

lemma length_slice_from_end: "length (slice_from_end n xs) = min n (length xs)"
  by (simp add: slice_from_end_def)

lemma stream_step_bound:
  "length events \<le> 500 \<Longrightarrow> length (stream_step JSON_parse events cb) \<le> 500"
  by (cases cb)
     (simp_all add: onopen_def onerror_def onmessage_def length_slice_from_end
        split: option.split)

lemma foldl_stream_step_bound:
  "length events \<le> 500 \<Longrightarrow> length (foldl (stream_step JSON_parse) events cbs) \<le> 500"
  by (induction cbs arbitrary: events) (simp_all add: stream_step_bound)

text \<open>
  Claim C9. The event list never holds more than 500 entries: whatever callbacks
  the stream fires and in whatever order, the list that starts empty stays within
  500; and a message whose data parse to \<open>event\<close> replaces the list by \<open>event\<close> in
  front of the last 499 entries of the old list (all of them when there are at
  most 499), in their old order.
\<close>

theorem events_never_exceed_500:
  "length (stream_run JSON_parse cbs) \<le> 500 \<and>
   (data \<noteq> [] \<and> JSON_parse data = Some event \<longrightarrow>
      onmessage JSON_parse data events = event # slice_from_end 499 events \<and>
      length (slice_from_end 499 events) \<le> 499 \<and>
      (length events \<le> 499 \<longrightarrow> slice_from_end 499 events = events) \<and>
      (\<forall>i < length (slice_from_end 499 events).
         slice_from_end 499 events ! i = events ! (length events - 499 + i)))"
proof -
  have "length (stream_run JSON_parse cbs) \<le> 500"
    unfolding stream_run_def by (rule foldl_stream_step_bound) simp
  moreover have "length (slice_from_end 499 events) \<le> 499"
    by (simp add: length_slice_from_end)
  moreover have "length events \<le> 499 \<longrightarrow> slice_from_end 499 events = events"
    by (simp add: slice_from_end_def)
  moreover have "\<forall>i < length (slice_from_end 499 events).
         slice_from_end 499 events ! i = events ! (length events - 499 + i)"
    by (simp add: slice_from_end_def)
  ultimately show ?thesis
    by (simp add: onmessage_def)
qed

theorem events_never_exceed_500_witness:
  "length (stream_run Some [Open, Message ''a'', Error, Message ''b'']) \<le> 500 \<and>
   ''b'' \<noteq> [] \<and> Some ''b'' = Some ''b'' \<and> onmessage Some ''b'' [''a''] = [''b'', ''a'']"
  using events_never_exceed_500
    [where JSON_parse = Some and cbs = "[Open, Message ''a'', Error, Message ''b'']"
       and data = "''b''" and event = "''b''" and events = "[''a'']"]
  by (simp add: slice_from_end_def)

section \<open>Submitting the password form: the local checks\<close>

lemma extractFormErrors_Nil: "extractFormErrors [] = []"
  by (simp add: extractFormErrors_def)

lemma settled_simps: "settled (Inr s) = s" "settled (Inl (e, s)) = s"
  by (simp_all add: settled_def)

lemmas example_defs = example_page_def filled_page_def example_response_def example_texts_def
  example_policy_def mount_def empty_form_def

lemmas run_defs = step_def handle_def react_def passwordReset_def onSubmitFinish_def
  settled_simps schemaPassword_validate_def Let_def ok_def run_events_def

lemma length_long_password: "length long_password = 257"
  by (simp add: long_password_def)

lemma long_password_not_Nil: "long_password \<noteq> []"
  using length_long_password by fastforce

text \<open>
  Claim C10, as amended. When the policy has not been accepted, \<open>passwordReset\<close>
  returns after the schema validation: no network function is called, and the
  error message \<open>err\<close> and the form fields are what they were. The one variable
  written is \<open>formErrors\<close>, the per-field messages of the schema validation:
  the \<open>required\<close> message for each field that is empty, and none, older ones
  removed, when the form passes the schema.
\<close>

theorem passwordReset_not_accepted:
  "\<not> accepted s \<Longrightarrow>
     passwordReset authRes resetRes s =
       Inr (s\<lparr>formErrors := extractFormErrors (schemaPassword_validate (t s) (formValues s))\<rparr>) \<and>
     calls (settled (passwordReset authRes resetRes s)) = calls s \<and>
     err (settled (passwordReset authRes resetRes s)) = err s \<and>
     formValues (settled (passwordReset authRes resetRes s)) = formValues s \<and>
     (schemaPassword_validate (t s) (formValues s) = [] \<longrightarrow>
        formErrors (settled (passwordReset authRes resetRes s)) = []) \<and>
     formErrors (settled (passwordReset authRes resetRes s)) =
       (if password (formValues s) = [] then [(''password'', required (t s))] else []) @
       (if passwordConfirm (formValues s) = [] then [(''passwordConfirm'', required (t s))]
        else [])"
  by (simp add: passwordReset_def Let_def extractFormErrors_def settled_simps
        schemaPassword_validate_def)

theorem passwordReset_not_accepted_witness:
  "\<not> accepted (filled_page ''Abcdefg123!'' ''Abcdefg123!'' False False) \<and>
   schemaPassword_validate (t (filled_page ''Abcdefg123!'' ''Abcdefg123!'' False False))
     (formValues (filled_page ''Abcdefg123!'' ''Abcdefg123!'' False False)) = [] \<and>
   passwordReset (example_response 200 None None) (example_response 200 None None)
     (filled_page ''Abcdefg123!'' ''Abcdefg123!'' False False)
   = Inr (filled_page ''Abcdefg123!'' ''Abcdefg123!'' False False)"
  using passwordReset_not_accepted
    [of "filled_page ''Abcdefg123!'' ''Abcdefg123!'' False False"
        "example_response 200 None None" "example_response 200 None None"]
  by (simp add: example_defs schemaPassword_validate_def extractFormErrors_Nil)

text \<open>
  Claim C10 as written fails where the form does not pass the schema: the page
  as mounted, both password fields empty and the policy not accepted, is
  submitted, and \<open>passwordReset\<close> sets the \<open>required\<close> message on both fields,
  which the template shows under the inputs.
\<close>

theorem passwordReset_not_accepted_counterexample:
  "\<not> accepted example_page \<and>
   formErrors example_page = [] \<and>
   passwordReset (example_response 200 None None) (example_response 200 None None) example_page =
   Inr (example_page
     \<lparr>formErrors := [(''password'', ''Required''), (''passwordConfirm'', ''Required'')]\<rparr>)"
  by (simp add: example_defs passwordReset_def schemaPassword_validate_def
        extractFormErrors_def Let_def)

text \<open>
  Claim C2, as amended. When password and confirmation differ, \<open>passwordReset\<close>
  returns without calling a network function. It reports the mismatch
  (\<open>t.passwordNoMatch\<close>) when the form passes the schema, the policy is accepted
  and the password has at most 256 characters; a form that fails the schema or an
  unaccepted policy leaves \<open>err\<close> as it was, and a password longer than 256 is
  reported as \<open>max 256\<close>.
\<close>

theorem passwordReset_mismatch:
  "password (formValues s) \<noteq> passwordConfirm (formValues s) \<Longrightarrow>
     \<not> isl (passwordReset authRes resetRes s) \<and>
     calls (settled (passwordReset authRes resetRes s)) = calls s \<and>
     err (settled (passwordReset authRes resetRes s)) =
       (if schemaPassword_validate (t s) (formValues s) \<noteq> [] \<or> \<not> accepted s then err s
        else if length (password (formValues s)) > 256 then ''max 256''
        else passwordNoMatch (t s))"
  by (simp add: passwordReset_def Let_def settled_simps)

theorem passwordReset_mismatch_witness:
  "password (formValues (filled_page ''Abcdefg123!'' ''Abcdefg123?'' True True)) \<noteq>
     passwordConfirm (formValues (filled_page ''Abcdefg123!'' ''Abcdefg123?'' True True)) \<and>
   calls (settled (passwordReset (example_response 200 None None) (example_response 200 None None)
            (filled_page ''Abcdefg123!'' ''Abcdefg123?'' True True))) = [] \<and>
   err (settled (passwordReset (example_response 200 None None) (example_response 200 None None)
            (filled_page ''Abcdefg123!'' ''Abcdefg123?'' True True))) = ''Passwords do not match''"
  using passwordReset_mismatch
    [of "filled_page ''Abcdefg123!'' ''Abcdefg123?'' True True"
        "example_response 200 None None" "example_response 200 None None"]
  by (simp add: example_defs schemaPassword_validate_def)

text \<open>
  Claim C2 as written fails: with the policy not accepted, two different
  passwords are submitted and no mismatch is reported; \<open>err\<close> stays empty.
\<close>

theorem passwordReset_mismatch_counterexample:
  "password (formValues (filled_page ''Abcdefg123!'' ''Abcdefg123?'' False False)) \<noteq>
     passwordConfirm (formValues (filled_page ''Abcdefg123!'' ''Abcdefg123?'' False False)) \<and>
   passwordReset (example_response 200 None None) (example_response 200 None None)
     (filled_page ''Abcdefg123!'' ''Abcdefg123?'' False False)
   = Inr (filled_page ''Abcdefg123!'' ''Abcdefg123?'' False False) \<and>
   err (filled_page ''Abcdefg123!'' ''Abcdefg123?'' False False) = [] \<and>
   err (filled_page ''Abcdefg123!'' ''Abcdefg123?'' False False) \<noteq>
     passwordNoMatch (t (filled_page ''Abcdefg123!'' ''Abcdefg123?'' False False))"
  by (simp add: example_defs passwordReset_def schemaPassword_validate_def Let_def)

text \<open>
  Claim C4, as amended. A password of more than 256 characters never reaches the
  network, whatever policy is loaded. The error \<open>max 256\<close> is set when the form
  passes the schema and the policy is accepted; otherwise \<open>passwordReset\<close> has
  returned before the length check and \<open>err\<close> is what it was.
\<close>

theorem passwordReset_hard_cap:
  "length (password (formValues s)) > 256 \<Longrightarrow>
     \<not> isl (passwordReset authRes resetRes (s\<lparr>policy := P\<rparr>)) \<and>
     calls (settled (passwordReset authRes resetRes (s\<lparr>policy := P\<rparr>))) = calls s \<and>
     err (settled (passwordReset authRes resetRes (s\<lparr>policy := P\<rparr>))) =
       (if schemaPassword_validate (t s) (formValues s) \<noteq> [] \<or> \<not> accepted s then err s
        else ''max 256'')"
  by (simp add: passwordReset_def Let_def settled_simps)

theorem passwordReset_hard_cap_witness:
  "length (password (formValues (filled_page long_password long_password True False))) > 256 \<and>
   calls (settled (passwordReset (example_response 200 None None) (example_response 200 None None)
      ((filled_page long_password long_password True False)
         \<lparr>policy := example_policy\<lparr>length_max := 300\<rparr>\<rparr>))) = [] \<and>
   err (settled (passwordReset (example_response 200 None None) (example_response 200 None None)
      ((filled_page long_password long_password True False)
         \<lparr>policy := example_policy\<lparr>length_max := 300\<rparr>\<rparr>))) = ''max 256''"
  using passwordReset_hard_cap
    [of "filled_page long_password long_password True False"
        "example_response 200 None None" "example_response 200 None None"
        "example_policy\<lparr>length_max := 300\<rparr>"]
  by (simp add: example_defs schemaPassword_validate_def length_long_password
        long_password_not_Nil)

text \<open>
  Claim C4 as written fails: with the policy not accepted, a password of 257
  characters is submitted and \<open>passwordReset\<close> returns the page as it was, with
  no error message and no field annotation.
\<close>

theorem passwordReset_hard_cap_counterexample:
  "length (password (formValues (filled_page long_password long_password False False))) > 256 \<and>
   passwordReset (example_response 200 None None) (example_response 200 None None)
      (filled_page long_password long_password False False)
   = Inr (filled_page long_password long_password False False) \<and>
   err (filled_page long_password long_password False False) = [] \<and>
   formErrors (filled_page long_password long_password False False) = []"
  by (simp add: example_defs passwordReset_def schemaPassword_validate_def Let_def
        length_long_password long_password_not_Nil)

section \<open>The MFA gate\<close>

text \<open>
  Claim C1, as amended. With MFA flagged, \<open>passwordReset\<close> never calls
  \<open>resetPassword\<close>: it calls nothing or \<open>webauthnAuthStart\<close> alone, whatever
  the responses are. When the submission passes the local checks and the
  auth-start response is ok (2xx) and reports a user id other than \<open>userId\<close>, the
  page ends with the identity-mismatch error, the loading flag off and
  \<open>webauthnData\<close> untouched, so that no ceremony is started and, with none
  pending, a success callback of the ceremony has nothing to act on. A response
  that is not ok is reported with the server's message instead (the
  counterexample below).
\<close>

theorem mfa_identity_mismatch:
  "isMfa s \<Longrightarrow>
     (calls (settled (passwordReset authRes resetRes s)) = calls s \<or>
      calls (settled (passwordReset authRes resetRes s)) =
        calls s @ [WebauthnAuthStart (userId s) ''PasswordReset'']) \<and>
     (schemaPassword_validate (t s) (formValues s) = [] \<and> accepted s \<and>
      length (password (formValues s)) \<le> 256 \<and>
      password (formValues s) = passwordConfirm (formValues s) \<and>
      ok authRes \<and> body authRes = Some b \<and> user_id b \<noteq> Some (userId s) \<longrightarrow>
        passwordReset authRes resetRes s =
          Inr (s\<lparr>formErrors := [],
                 err := ''MFA user ID does not match - this should never happen'',
                 calls := calls s @ [WebauthnAuthStart (userId s) ''PasswordReset''],
                 isLoading := False\<rparr>) \<and>
        (webauthnData s = None \<longrightarrow>
           handler_outcome (WebauthnSuccess res resetRes)
             (settled (passwordReset authRes resetRes s)) =
           Inr (settled (passwordReset authRes resetRes s)))) \<and>
     (schemaPassword_validate (t s) (formValues s) = [] \<and> accepted s \<and>
      length (password (formValues s)) \<le> 256 \<and>
      password (formValues s) = passwordConfirm (formValues s) \<and>
      \<not> ok authRes \<and> body authRes = Some b \<longrightarrow>
        passwordReset authRes resetRes s =
          Inr (s\<lparr>formErrors := [], err := message b,
                 calls := calls s @ [WebauthnAuthStart (userId s) ''PasswordReset''],
                 isLoading := False\<rparr>))"
  by (simp add: passwordReset_def Let_def settled_simps split: option.split)

theorem mfa_identity_mismatch_witness:
  "isMfa (filled_page ''Abcdefg123!'' ''Abcdefg123!'' True True) \<and>
   ok (example_response 200 None (Some ''user-2'')) \<and>
   webauthnData (filled_page ''Abcdefg123!'' ''Abcdefg123!'' True True) = None \<and>
   passwordReset (example_response 200 None (Some ''user-2'')) (example_response 200 None None)
     (filled_page ''Abcdefg123!'' ''Abcdefg123!'' True True) =
   Inr ((filled_page ''Abcdefg123!'' ''Abcdefg123!'' True True)
     \<lparr>err := ''MFA user ID does not match - this should never happen'',
      calls := [WebauthnAuthStart ''user-1'' ''PasswordReset'']\<rparr>) \<and>
   handler_outcome (WebauthnSuccess (Some \<lparr>code = Some ''123456''\<rparr>)
       (example_response 200 None None))
     ((filled_page ''Abcdefg123!'' ''Abcdefg123!'' True True)
       \<lparr>err := ''MFA user ID does not match - this should never happen'',
        calls := [WebauthnAuthStart ''user-1'' ''PasswordReset'']\<rparr>) =
   Inr ((filled_page ''Abcdefg123!'' ''Abcdefg123!'' True True)
     \<lparr>err := ''MFA user ID does not match - this should never happen'',
      calls := [WebauthnAuthStart ''user-1'' ''PasswordReset'']\<rparr>)"
  using mfa_identity_mismatch
    [of "filled_page ''Abcdefg123!'' ''Abcdefg123!'' True True"
        "example_response 200 None (Some ''user-2'')" "example_response 200 None None"
        "\<lparr>message = ''server message'', user_id = Some ''user-2'', publicKey = None\<rparr>"
        "Some \<lparr>code = Some ''123456''\<rparr>"]
  by (simp add: example_defs ok_def schemaPassword_validate_def settled_simps)

text \<open>
  Claim C1 as written fails in its second half: the auth-start response has
  status 500 and reports the user id \<open>user-2\<close> to the session of \<open>user-1\<close>. The
  reset is not called, but the flow ends with the server's message, not with the
  identity-mismatch error: the check of \<open>res.ok\<close> comes first.
\<close>

theorem mfa_identity_mismatch_counterexample:
  "isMfa (filled_page ''Abcdefg123!'' ''Abcdefg123!'' True True) \<and>
   map_option user_id (body (example_response 500 None (Some ''user-2''))) \<noteq>
     Some (Some (userId (filled_page ''Abcdefg123!'' ''Abcdefg123!'' True True))) \<and>
   passwordReset (example_response 500 None (Some ''user-2'')) (example_response 200 None None)
     (filled_page ''Abcdefg123!'' ''Abcdefg123!'' True True) =
   Inr ((filled_page ''Abcdefg123!'' ''Abcdefg123!'' True True)
     \<lparr>err := ''server message'',
      calls := [WebauthnAuthStart ''user-1'' ''PasswordReset'']\<rparr>) \<and>
   ''server message'' \<noteq> ''MFA user ID does not match - this should never happen''"
  by (simp add: example_defs passwordReset_def ok_def schemaPassword_validate_def Let_def)

section \<open>The form state across ceremony errors and successful submissions\<close>

lemma onSubmitFinish_ok:
  "ok res \<Longrightarrow>
     onSubmitFinish mfaCode res s =
       Inr (s\<lparr>calls := calls s @
                 [ResetPassword (userId s) (password (formValues s)) (magicLinkId s) mfaCode
                    (csrf s)],
              err := [], formValues := empty_form, redirectUri := headers_Location res,
              success := True, isLoading := False\<rparr>)"
  by (simp add: onSubmitFinish_def Let_def)

lemma success_onSubmitFinish:
  "success (settled (onSubmitFinish mfaCode res s)) = (ok res \<or> success s)"
  by (simp add: onSubmitFinish_def Let_def settled_simps split: option.split)

lemma formValues_onSubmitFinish:
  "formValues (settled (onSubmitFinish mfaCode res s)) =
     (if ok res then empty_form else formValues s)"
  by (simp add: onSubmitFinish_def Let_def settled_simps split: option.split)

lemma enters_success_passwordReset:
  "\<not> success s \<Longrightarrow> success (settled (passwordReset authRes resetRes s)) \<Longrightarrow>
     formValues (settled (passwordReset authRes resetRes s)) = empty_form"
  by (simp add: passwordReset_def Let_def settled_simps success_onSubmitFinish
        formValues_onSubmitFinish split: if_splits option.splits)

lemma enters_success_onWebauthnSuccess:
  "\<not> success s \<Longrightarrow> success (settled (onWebauthnSuccess res resetRes s)) \<Longrightarrow>
     formValues (settled (onWebauthnSuccess res resetRes s)) = empty_form"
  by (simp add: onWebauthnSuccess_def settled_simps success_onSubmitFinish
        formValues_onSubmitFinish split: option.splits if_splits)

lemma enters_success_handleRegisterPasskey:
  "\<not> success s \<Longrightarrow> success (settled (handleRegisterPasskey rx startRes create finishRes s)) \<Longrightarrow>
     formValues (settled (handleRegisterPasskey rx startRes create finishRes s)) = empty_form"
  by (auto simp: handleRegisterPasskey_def settled_simps Let_def onWebauthnError_def
        split: option.splits if_splits)

lemma enters_success_handle:
  "\<not> success s \<Longrightarrow> success (handle ev s) \<Longrightarrow> formValues (handle ev s) = empty_form"
  unfolding handle_def
  by (cases ev)
     (simp_all add: generate_def Let_def onWebauthnError_def settled_simps
        enters_success_passwordReset enters_success_onWebauthnSuccess
        enters_success_handleRegisterPasskey split: if_splits)

lemma success_react: "success (react before after) = success after"
  by (simp add: react_def Let_def)

lemma formValues_react_empty:
  "formValues after = empty_form \<Longrightarrow> formValues (react before after) = empty_form"
  by (simp add: react_def Let_def)

lemma formValues_step_WebauthnError:
  "formValues (step s WebauthnError) = formValues s"
  by (simp add: step_def handle_def react_def Let_def onWebauthnError_def settled_simps)

lemma decode_example_challenge:
  "decode_public_key example_challenge =
     Some \<lparr>challenge = [65, 66, 67], pk_user_id = [65], excludeCredentials = Some [[65, 66]],
           userVerification = ''required''\<rparr>"
  by code_simp

text \<open>
  Claim C5. The error callback of the authenticator ceremony,
  \<open>onWebauthnError\<close>, leaves the three form fields as they are, also after the
  reactive blocks have run, and so does a registration whose ceremony is
  rejected. Every successful terminal submission empties them:
  an ok (2xx) response to \<open>resetPassword\<close> in \<open>onSubmitFinish\<close>, a 201 from
  \<open>webauthnRegFinishAccReset\<close> in \<open>handleRegisterPasskey\<close>, and in general every
  step of the page that turns \<open>success\<close> on.
\<close>

theorem form_state_frame:
  "formValues (onWebauthnError s) = formValues s \<and>
   formValues (step s WebauthnError) = formValues s \<and>
   (ok res \<longrightarrow>
      \<not> isl (onSubmitFinish mfaCode res s) \<and>
      success (settled (onSubmitFinish mfaCode res s)) \<and>
      formValues (settled (onSubmitFinish mfaCode res s)) = empty_form) \<and>
   (schemaPasskey_validate rx (t s) (formValues s) = [] \<and>
    2 \<le> length (passkeyName (formValues s)) \<and>
    status startRes = 200 \<and> body startRes = Some challenge_json \<and>
    publicKey challenge_json = Some pk \<and>
    decode_public_key pk = Some decoded \<and> create decoded = Some challengePk \<and>
    status finishRes = 201 \<longrightarrow>
      (\<exists>s'. handleRegisterPasskey rx startRes create finishRes s = Inr s' \<and>
            success s' \<and> formValues s' = empty_form)) \<and>
   (isl (handleRegisterPasskey rx startRes create finishRes s) \<longrightarrow>
      formValues (settled (handleRegisterPasskey rx startRes create finishRes s)) =
        formValues s) \<and>
   (\<not> success s \<and> success (step s ev) \<longrightarrow> formValues (step s ev) = empty_form)"
proof -
  have "\<not> success s \<and> success (step s ev) \<longrightarrow> formValues (step s ev) = empty_form"
    by (simp add: step_def success_react formValues_react_empty enters_success_handle)
  moreover have "isl (handleRegisterPasskey rx startRes create finishRes s) \<longrightarrow>
      formValues (settled (handleRegisterPasskey rx startRes create finishRes s)) =
        formValues s"
    by (auto simp: handleRegisterPasskey_def Let_def settled_simps onWebauthnError_def
          split: option.splits if_splits)
  ultimately show ?thesis
    by (simp add: formValues_step_WebauthnError onSubmitFinish_ok settled_simps
          handleRegisterPasskey_def Let_def onWebauthnError_def)
qed

theorem form_state_frame_witness:
  "ok (example_response 200 None None) \<and>
   formValues (settled (onSubmitFinish None (example_response 200 None None)
      (filled_page ''Abcdefg123!'' ''Abcdefg123!'' True False))) = empty_form \<and>
   (\<exists>s'. handleRegisterPasskey (\<lambda>name. True) example_start_response
            (\<lambda>pk. Some example_credential) (example_response 201 None None)
            (example_page\<lparr>formValues := \<lparr>passkeyName = ''my key'', password = [],
                                          passwordConfirm = []\<rparr>\<rparr>) = Inr s' \<and>
         success s' \<and> formValues s' = empty_form) \<and>
   isl (handleRegisterPasskey (\<lambda>name. True) example_start_response
            (\<lambda>pk. None) (example_response 201 None None)
            (example_page\<lparr>formValues := \<lparr>passkeyName = ''my key'', password = [],
                                          passwordConfirm = []\<rparr>\<rparr>)) \<and>
   formValues (settled (handleRegisterPasskey (\<lambda>name. True) example_start_response
            (\<lambda>pk. None) (example_response 201 None None)
            (example_page\<lparr>formValues := \<lparr>passkeyName = ''my key'', password = [],
                                          passwordConfirm = []\<rparr>\<rparr>))) =
     \<lparr>passkeyName = ''my key'', password = [], passwordConfirm = []\<rparr> \<and>
   \<not> success (filled_page ''Abcdefg123!'' ''Abcdefg123!'' True False) \<and>
   success (step (filled_page ''Abcdefg123!'' ''Abcdefg123!'' True False)
      (ClickSave (example_response 200 None None) (example_response 200 None None))) \<and>
   formValues (step (filled_page ''Abcdefg123!'' ''Abcdefg123!'' True False)
      (ClickSave (example_response 200 None None) (example_response 200 None None))) = empty_form"
  using form_state_frame
    [where s = "example_page\<lparr>formValues := \<lparr>passkeyName = ''my key'', password = [],
                                          passwordConfirm = []\<rparr>\<rparr>"
       and rx = "\<lambda>name. True" and startRes = example_start_response
       and challenge_json = "\<lparr>message = [], user_id = None, publicKey = Some example_challenge\<rparr>"
       and pk = example_challenge
       and decoded = "\<lparr>challenge = [65, 66, 67], pk_user_id = [65],
                        excludeCredentials = Some [[65, 66]], userVerification = ''required''\<rparr>"
       and create = "\<lambda>pk. Some example_credential" and challengePk = example_credential
       and finishRes = "example_response 201 None None"
       and res = "example_response 200 None None"]
    form_state_frame
    [where s = "example_page\<lparr>formValues := \<lparr>passkeyName = ''my key'', password = [],
                                          passwordConfirm = []\<rparr>\<rparr>"
       and rx = "\<lambda>name. True" and startRes = example_start_response
       and create = "\<lambda>pk. None" and finishRes = "example_response 201 None None"]
    form_state_frame
    [where s = "filled_page ''Abcdefg123!'' ''Abcdefg123!'' True False"
       and res = "example_response 200 None None" and mfaCode = None
       and ev = "ClickSave (example_response 200 None None) (example_response 200 None None)"]
  by (simp add: decode_example_challenge example_defs example_start_response_def
        schemaPasskey_validate_def handleRegisterPasskey_def run_defs)

section \<open>The redirect after success\<close>

lemma timers_handle: "timers (handle ev s) = timers s"
  unfolding handle_def
  by (cases ev)
     (simp_all add: generate_def passwordReset_def onSubmitFinish_def onWebauthnSuccess_def
        onWebauthnError_def handleRegisterPasskey_def settled_simps Let_def
        split: option.splits)

lemma success_handle_mono: "success s \<Longrightarrow> success (handle ev s)"
  unfolding handle_def
  by (cases ev)
     (simp_all add: generate_def passwordReset_def onSubmitFinish_def onWebauthnSuccess_def
        onWebauthnError_def handleRegisterPasskey_def settled_simps Let_def
        split: option.splits)

lemma redirectUri_react: "redirectUri (react before after) = redirectUri after"
  by (simp add: react_def Let_def)

text \<open>
  Claim C6, as amended. The step that turns \<open>success\<close> on schedules one timer, of
  5000, and no later step schedules another. When the timer fires the page
  navigates to the \<open>Location\<close> header of the reset response if that header is
  present and not empty, and to \<open>/auth/v1/account\<close> if it is absent or empty.
\<close>

theorem success_redirect:
  "(\<not> success s \<and> success (step s ev) \<longrightarrow> timers (step s ev) = timers s @ [5000]) \<and>
   (success s \<longrightarrow> success (step s ev) \<and> timers (step s ev) = timers s) \<and>
   redirect_target (react before after) = redirect_target after \<and>
   (ok res \<longrightarrow>
      success (settled (onSubmitFinish mfaCode res s)) \<and>
      redirect_target (settled (onSubmitFinish mfaCode res s)) =
        (case headers_Location res of
           None \<Rightarrow> ''/auth/v1/account''
         | Some uri \<Rightarrow> if uri = [] then ''/auth/v1/account'' else uri))"
proof -
  have a: "\<not> success s \<and> success (step s ev) \<longrightarrow> timers (step s ev) = timers s @ [5000]"
    by (simp add: step_def react_def Let_def timers_handle)
  have b: "success s \<longrightarrow> success (step s ev) \<and> timers (step s ev) = timers s"
    by (simp add: step_def react_def Let_def timers_handle success_handle_mono)
  have c: "redirect_target (react before after) = redirect_target after"
    by (simp add: redirect_target_def redirectUri_react)
  have d: "ok res \<longrightarrow>
      success (settled (onSubmitFinish mfaCode res s)) \<and>
      redirect_target (settled (onSubmitFinish mfaCode res s)) =
        (case headers_Location res of
           None \<Rightarrow> ''/auth/v1/account''
         | Some uri \<Rightarrow> if uri = [] then ''/auth/v1/account'' else uri)"
    by (simp add: onSubmitFinish_ok settled_simps redirect_target_def navigateToAccount_def
          split: option.split)
  from a b c d show ?thesis by blast
qed

theorem success_redirect_witness:
  "ok (example_response 200 (Some ''/auth/v1/account?x=1'') None) \<and>
   \<not> success (filled_page ''Abcdefg123!'' ''Abcdefg123!'' True False) \<and>
   success (step (filled_page ''Abcdefg123!'' ''Abcdefg123!'' True False)
      (ClickSave (example_response 200 None None)
         (example_response 200 (Some ''/auth/v1/account?x=1'') None))) \<and>
   timers (step (filled_page ''Abcdefg123!'' ''Abcdefg123!'' True False)
      (ClickSave (example_response 200 None None)
         (example_response 200 (Some ''/auth/v1/account?x=1'') None))) = [5000] \<and>
   timers (step (step (filled_page ''Abcdefg123!'' ''Abcdefg123!'' True False)
      (ClickSave (example_response 200 None None)
         (example_response 200 (Some ''/auth/v1/account?x=1'') None)))
      (ClickSave (example_response 200 None None)
         (example_response 200 (Some ''/auth/v1/account?x=1'') None))) = [5000] \<and>
   redirect_target (settled (onSubmitFinish None
      (example_response 200 (Some ''/auth/v1/account?x=1'') None)
      (filled_page ''Abcdefg123!'' ''Abcdefg123!'' True False))) = ''/auth/v1/account?x=1''"
  using success_redirect
    [where s = "filled_page ''Abcdefg123!'' ''Abcdefg123!'' True False"
       and ev = "ClickSave (example_response 200 None None)
         (example_response 200 (Some ''/auth/v1/account?x=1'') None)"
       and res = "example_response 200 (Some ''/auth/v1/account?x=1'') None"
       and mfaCode = None]
    success_redirect
    [where s = "step (filled_page ''Abcdefg123!'' ''Abcdefg123!'' True False)
      (ClickSave (example_response 200 None None)
         (example_response 200 (Some ''/auth/v1/account?x=1'') None))"
       and ev = "ClickSave (example_response 200 None None)
         (example_response 200 (Some ''/auth/v1/account?x=1'') None)"]
  by (simp add: example_defs run_defs)

text \<open>
  Claim C6 as written fails where the header is present and empty: the reset
  succeeds with \<open>Location\<close> set to the empty string, and the page navigates to
  \<open>/auth/v1/account\<close>, not to the header's value.
\<close>

theorem success_redirect_counterexample:
  "ok (example_response 200 (Some []) None) \<and>
   headers_Location (example_response 200 (Some []) None) = Some [] \<and>
   success (settled (onSubmitFinish None (example_response 200 (Some []) None)
      (filled_page ''Abcdefg123!'' ''Abcdefg123!'' True False))) \<and>
   redirect_target (settled (onSubmitFinish None (example_response 200 (Some []) None)
      (filled_page ''Abcdefg123!'' ''Abcdefg123!'' True False))) = ''/auth/v1/account'' \<and>
   redirect_target (settled (onSubmitFinish None (example_response 200 (Some []) None)
      (filled_page ''Abcdefg123!'' ''Abcdefg123!'' True False))) \<noteq> []"
  by (simp add: example_defs ok_def onSubmitFinish_def settled_simps redirect_target_def
        navigateToAccount_def Let_def)

section \<open>The loading indicator\<close>

lemma isLoading_react: "isLoading (react before after) = isLoading after"
  by (simp add: react_def Let_def)

lemma isLoading_onSubmitFinish:
  "\<not> isl (onSubmitFinish mfaCode res s) \<Longrightarrow> \<not> isLoading (settled (onSubmitFinish mfaCode res s))"
  by (simp add: onSubmitFinish_def Let_def settled_simps split: if_splits option.splits)

lemma isl_onSubmitFinish:
  "isl (onSubmitFinish mfaCode res s) \<longleftrightarrow> \<not> ok res \<and> body res = None"
  by (simp add: onSubmitFinish_def Let_def split: option.split)

lemma isLoading_passwordReset:
  "\<not> isLoading s \<Longrightarrow> \<not> isl (passwordReset authRes resetRes s) \<Longrightarrow>
     \<not> isLoading (settled (passwordReset authRes resetRes s))"
  by (auto simp: passwordReset_def Let_def settled_simps isLoading_onSubmitFinish
        split: if_splits option.splits)

lemma isLoading_onWebauthnSuccess:
  "\<not> isLoading s \<Longrightarrow> \<not> isl (onWebauthnSuccess res resetRes s) \<Longrightarrow>
     \<not> isLoading (settled (onWebauthnSuccess res resetRes s))"
  by (simp add: onWebauthnSuccess_def settled_simps isLoading_onSubmitFinish
        split: option.splits)

lemma isLoading_onWebauthnError: "isLoading (onWebauthnError s) = isLoading s"
  by (simp add: onWebauthnError_def)

lemma isLoading_handleRegisterPasskey:
  "isLoading (settled (handleRegisterPasskey rx startRes create finishRes s)) = isLoading s"
  by (simp add: handleRegisterPasskey_def settled_simps Let_def onWebauthnError_def
        split: option.split)

lemma isLoading_generate: "isLoading (generate rnd s) = isLoading s"
  by (simp add: generate_def Let_def)

lemma isLoading_handle:
  "\<not> isLoading s \<Longrightarrow> \<not> isl (handler_outcome ev s) \<Longrightarrow> \<not> isLoading (handle ev s)"
  unfolding handle_def
  by (cases ev)
     (auto simp: settled_simps isLoading_generate isLoading_passwordReset
        isLoading_onWebauthnSuccess isLoading_onWebauthnError
        isLoading_handleRegisterPasskey)

lemma isLoading_step:
  "\<not> isLoading s \<Longrightarrow> \<not> isl (handler_outcome ev s) \<Longrightarrow> \<not> isLoading (step s ev)"
  by (simp add: step_def isLoading_react isLoading_handle)

lemma isLoading_run_events:
  "\<not> isLoading s \<Longrightarrow> all_return s evs \<Longrightarrow> \<not> isLoading (run_events s evs)"
  unfolding run_events_def
  by (induction evs arbitrary: s) (simp_all add: isLoading_step)

text \<open>
  Where the handlers return, the loading indicator is off at the end: from the
  mounted page after any sequence of events whose handlers all return, after
  \<open>onSubmitFinish\<close> whenever the response is ok or its body parses, and after
  \<open>passwordReset\<close>, the ceremony callbacks and every step that start with the
  indicator off.
\<close>

lemma isLoading_off_when_handlers_return:
  "(all_return (mount texts tok pol mfa_flag uid lnk rt) evs \<longrightarrow>
      \<not> isLoading (run_events (mount texts tok pol mfa_flag uid lnk rt) evs)) \<and>
   (ok resetRes \<or> body resetRes \<noteq> None \<longrightarrow>
      \<not> isl (onSubmitFinish mfaCode resetRes s) \<and>
      \<not> isLoading (settled (onSubmitFinish mfaCode resetRes s))) \<and>
   (\<not> isLoading s \<longrightarrow>
      (\<not> isl (passwordReset authRes resetRes s) \<longrightarrow>
         \<not> isLoading (settled (passwordReset authRes resetRes s))) \<and>
      (\<not> isl (onWebauthnSuccess res resetRes s) \<longrightarrow>
         \<not> isLoading (settled (onWebauthnSuccess res resetRes s))) \<and>
      \<not> isLoading (onWebauthnError s) \<and>
      (\<not> isl (handler_outcome ev s) \<longrightarrow> \<not> isLoading (step s ev)))"
proof -
  have "\<not> isLoading (mount texts tok pol mfa_flag uid lnk rt)"
    by (simp add: mount_def)
  then have "all_return (mount texts tok pol mfa_flag uid lnk rt) evs \<longrightarrow>
      \<not> isLoading (run_events (mount texts tok pol mfa_flag uid lnk rt) evs)"
    by (simp add: isLoading_run_events)
  moreover have "ok resetRes \<or> body resetRes \<noteq> None \<longrightarrow>
      \<not> isl (onSubmitFinish mfaCode resetRes s) \<and>
      \<not> isLoading (settled (onSubmitFinish mfaCode resetRes s))"
    using isLoading_onSubmitFinish [of mfaCode resetRes s]
    by (auto simp: isl_onSubmitFinish)
  ultimately show ?thesis
    by (simp add: isLoading_passwordReset isLoading_onWebauthnSuccess
          isLoading_onWebauthnError isLoading_step)
qed

text \<open>
  Claim C7: on every exit path of a submission attempt the loading indicator is
  off when the attempt ends. The code does not meet it. A reset response that is
  not ok and whose body is not JSON makes \<open>res.json()\<close> throw after
  \<open>isLoading = true\<close>; nothing catches it, the closing \<open>isLoading = false\<close> is
  not reached and the attempt ends with the indicator on. The same status with a
  JSON body ends with the indicator off, and the indicator stays on through a
  later attempt that returns at the mismatch check.
\<close>

theorem loading_stuck_on_non_json_error:
  "\<not> isLoading (filled_page ''Abcdefg123!'' ''Abcdefg123!'' True False) \<and>
   \<not> ok bad_gateway \<and> body bad_gateway = None \<and>
   passwordReset (example_response 200 None None) bad_gateway
        (filled_page ''Abcdefg123!'' ''Abcdefg123!'' True False) =
   Inl (SyntaxError, (filled_page ''Abcdefg123!'' ''Abcdefg123!'' True False)
     \<lparr>isLoading := True,
      calls := [ResetPassword ''user-1'' ''Abcdefg123!'' ''link-1'' None ''csrf'']\<rparr>) \<and>
   isLoading (step (filled_page ''Abcdefg123!'' ''Abcdefg123!'' True False)
      (ClickSave (example_response 200 None None) bad_gateway)) \<and>
   passwordReset (example_response 200 None None) (example_response 502 None None)
        (filled_page ''Abcdefg123!'' ''Abcdefg123!'' True False) =
   Inr ((filled_page ''Abcdefg123!'' ''Abcdefg123!'' True False)
     \<lparr>err := ''server message'',
      calls := [ResetPassword ''user-1'' ''Abcdefg123!'' ''link-1'' None ''csrf'']\<rparr>) \<and>
   \<not> isl (handler_outcome (ClickSave (example_response 200 None None) (example_response 200 None None))
      (step (step (filled_page ''Abcdefg123!'' ''Abcdefg123!'' True False)
               (ClickSave (example_response 200 None None) bad_gateway))
            (EditForm \<lparr>passkeyName = [], password = ''Abcdefg123!'',
                        passwordConfirm = ''Abcdefg123?''\<rparr>))) \<and>
   isLoading (run_events (filled_page ''Abcdefg123!'' ''Abcdefg123!'' True False)
      [ClickSave (example_response 200 None None) bad_gateway,
       EditForm \<lparr>passkeyName = [], password = ''Abcdefg123!'', passwordConfirm = ''Abcdefg123?''\<rparr>,
       ClickSave (example_response 200 None None) (example_response 200 None None)])"
  by (simp add: example_defs bad_gateway_def run_defs)

section \<open>Round trip of the text-safe encoding\<close>

lemma first_byte_tail: "a div 4 * 4 + (a mod 4 * 16) div 16 = (a :: nat)"
  by simp

lemma first_byte: "b < 256 \<Longrightarrow> a div 4 * 4 + (a mod 4 * 16 + b div 16) div 16 = (a :: nat)"
  by (simp add: div_mult2_eq [symmetric])

lemma third_byte: "c < 256 \<Longrightarrow> (b mod 16 * 4 + c div 64) mod 4 * 64 + c mod 64 = (c :: nat)"
  by (simp add: mod_mult_self3)

lemma high_nibble_bound: "b < 256 \<Longrightarrow> b div 16 < (16 :: nat)"
  by (simp add: less_mult_imp_div_less)

lemma second_byte_tail:
  "b < 256 \<Longrightarrow> (a mod 4 * 16 + b div 16) mod 16 * 16 + (b mod 16 * 4) div 4 = (b :: nat)"
  by (simp add: high_nibble_bound)

lemma second_byte:
  "b < 256 \<Longrightarrow> c < 256 \<Longrightarrow>
     (a mod 4 * 16 + b div 16) mod 16 * 16 + (b mod 16 * 4 + c div 64) div 4 = (b :: nat)"
  by (simp add: div_mult2_eq [symmetric] high_nibble_bound)

lemma index_of_nth:
  "distinct xs \<Longrightarrow> i < length xs \<Longrightarrow> index_of (xs ! i) xs = Some i"
proof (induction xs arbitrary: i)
  case Nil
  then show ?case by simp
next
  case (Cons x xs)
  show ?case
  proof (cases i)
    case 0
    then show ?thesis by simp
  next
    case (Suc j)
    with Cons.prems have "j < length xs" "distinct xs" "xs ! j \<noteq> x"
      by auto
    with Cons.IH [of j] Suc show ?thesis by simp
  qed
qed

lemma length_base64url_alphabet: "length base64url_alphabet = 64"
  by (simp add: base64url_alphabet_def)

lemma distinct_base64url_alphabet: "distinct base64url_alphabet"
  by (simp add: base64url_alphabet_def)

lemma sextet_of_alphabet:
  "i < 64 \<Longrightarrow> index_of (base64url_alphabet ! i) base64url_alphabet = Some i"
  by (simp add: index_of_nth distinct_base64url_alphabet length_base64url_alphabet)

lemma those_sextets:
  "\<forall>i \<in> set ss. i < 64 \<Longrightarrow>
   those (map (\<lambda>c. index_of c base64url_alphabet) (map (\<lambda>i. base64url_alphabet ! i) ss)) = Some ss"
  by (induction ss) (simp_all add: sextet_of_alphabet)

lemma unat_byte_bound: "unat (a :: byte) < 256"
  using unsigned_less [of a, where 'a = nat] by simp

lemma sextet1_bound: "a < 256 \<Longrightarrow> a div 4 < (64 :: nat)"
  by (simp add: less_mult_imp_div_less)

lemma sextet2_bound: "b < 256 \<Longrightarrow> a mod 4 * 16 + b div 16 < (64 :: nat)"
proof -
  assume "b < 256"
  then have "b div 16 < 16" by (rule high_nibble_bound)
  moreover have "a mod 4 < 4" by simp
  ultimately show ?thesis by linarith
qed

lemma sextet3_bound: "c < 256 \<Longrightarrow> b mod 16 * 4 + c div 64 < (64 :: nat)"
proof -
  assume "c < 256"
  then have "c div 64 < 4" by (simp add: less_mult_imp_div_less)
  moreover have "b mod 16 < 16" by simp
  ultimately show ?thesis by linarith
qed

lemma sextet2_tail_bound: "a mod 4 * 16 < (64 :: nat)"
proof -
  have "a mod 4 < 4" by simp
  then show ?thesis by linarith
qed

lemma sextet3_tail_bound: "b mod 16 * 4 < (64 :: nat)"
proof -
  have "b mod 16 < 16" by simp
  then show ?thesis by linarith
qed

lemmas sextet_bounds = sextet1_bound sextet2_bound sextet3_bound sextet2_tail_bound
  sextet3_tail_bound unat_byte_bound

lemma sextets_bound: "\<forall>i \<in> set (sextets_of_bytes bs). i < 64"
  by (induction bs rule: sextets_of_bytes.induct) (simp_all add: sextet_bounds)

lemma word_of_unat_eq: "n = unat (a :: byte) \<Longrightarrow> of_nat n = a"
  by simp

lemma byte1:
  fixes a b :: byte
  shows "of_nat (unat a div 4 * 4 + (unat a mod 4 * 16 + unat b div 16) div 16) = a"
  by (rule word_of_unat_eq) (rule first_byte [OF unat_byte_bound])

lemma byte1_tail:
  fixes a :: byte
  shows "of_nat (unat a div 4 * 4 + (unat a mod 4 * 16) div 16) = a"
  by (rule word_of_unat_eq) (rule first_byte_tail)

lemma byte2:
  fixes a b c :: byte
  shows "of_nat ((unat a mod 4 * 16 + unat b div 16) mod 16 * 16
            + (unat b mod 16 * 4 + unat c div 64) div 4) = b"
  by (rule word_of_unat_eq) (rule second_byte [OF unat_byte_bound unat_byte_bound])

lemma byte2_tail:
  fixes a b :: byte
  shows "of_nat ((unat a mod 4 * 16 + unat b div 16) mod 16 * 16 + (unat b mod 16 * 4) div 4) = b"
  by (rule word_of_unat_eq) (rule second_byte_tail [OF unat_byte_bound])

lemma byte3:
  fixes b c :: byte
  shows "of_nat ((unat b mod 16 * 4 + unat c div 64) mod 4 * 64 + unat c mod 64) = c"
  by (rule word_of_unat_eq) (rule third_byte [OF unat_byte_bound])

lemma bytes_of_sextets_of_bytes: "bytes_of_sextets (sextets_of_bytes bs) = Some bs"
proof (induction bs rule: sextets_of_bytes.induct)
  case 1
  show ?case by simp
next
  case (2 a)
  show ?case
    by (simp only: sextets_of_bytes.simps bytes_of_sextets.simps byte1_tail)
next
  case (3 a b)
  show ?case
    by (simp only: sextets_of_bytes.simps bytes_of_sextets.simps byte1 byte2_tail)
next
  case (4 a b c rest)
  then show ?case
    by (simp only: sextets_of_bytes.simps bytes_of_sextets.simps append_Cons append_Nil
          byte1 byte2 byte3 option.map)
qed

lemma decode_encode: "base64UrlSafeToArrBuf (arrBufToBase64UrlSafe bs) = Some bs"
  unfolding base64UrlSafeToArrBuf_def arrBufToBase64UrlSafe_def
  by (simp only: those_sextets [OF sextets_bound] option.case bytes_of_sextets_of_bytes)

text \<open>
  Claim C8, as amended. Encoding a binary value and decoding the text again gives
  the value back, for every binary value; so a string that is the encoding of
  some binary value, as each binary field of a challenge and of a credential
  result is, decodes and encodes again to itself.
\<close>

theorem base64url_round_trip:
  "base64UrlSafeToArrBuf (arrBufToBase64UrlSafe bs) = Some bs \<and>
   (s = arrBufToBase64UrlSafe bs \<longrightarrow>
      map_option arrBufToBase64UrlSafe (base64UrlSafeToArrBuf s) = Some s)"
  by (simp add: decode_encode)

theorem base64url_round_trip_witness:
  "''QUI'' = arrBufToBase64UrlSafe [65, 66] \<and>
   base64UrlSafeToArrBuf ''QUI'' = Some [65, 66] \<and>
   map_option arrBufToBase64UrlSafe (base64UrlSafeToArrBuf ''QUI'') = Some ''QUI''"
proof -
  have e: "''QUI'' = arrBufToBase64UrlSafe [65, 66]"
    by code_simp
  from e base64url_round_trip [of "[65, 66]" "''QUI''"] show ?thesis
    by simp
qed

text \<open>
  Claim C8 as written fails for strings over the alphabet that no encoder
  produces: \<open>QR\<close> decodes to the single byte 65, whose encoding is \<open>QQ\<close> (the
  four bits left over are dropped), and \<open>Q\<close> does not decode at all.
\<close>

theorem base64url_round_trip_counterexample:
  "set ''QR'' \<subseteq> set base64url_alphabet \<and>
   base64UrlSafeToArrBuf ''QR'' = Some [65] \<and>
   arrBufToBase64UrlSafe [65] = ''QQ'' \<and>
   map_option arrBufToBase64UrlSafe (base64UrlSafeToArrBuf ''QR'') \<noteq> Some ''QR'' \<and>
   set ''Q'' \<subseteq> set base64url_alphabet \<and>
   base64UrlSafeToArrBuf ''Q'' = None"
  by code_simp

section \<open>Generated passwords and the policy\<close>

lemma mset_remove_nth:
  "i < length xs \<Longrightarrow> add_mset (xs ! i) (mset (take i xs @ drop (Suc i) xs)) = mset xs"
proof -
  assume "i < length xs"
  then have "xs = take i xs @ xs ! i # drop (Suc i) xs"
    by (rule id_take_nth_drop)
  then have "mset xs = mset (take i xs @ xs ! i # drop (Suc i) xs)"
    by simp
  then show ?thesis by simp
qed

lemma mset_shuffle_steps:
  "length xs = n \<Longrightarrow> mset (shuffle_steps n rnd xs) = mset xs"
proof (induction n arbitrary: xs)
  case 0
  then show ?case by simp
next
  case (Suc n)
  then obtain y ys where xs: "xs = y # ys"
    by (cases xs) auto
  let ?i = "rnd n mod length xs"
  have i: "?i < length xs"
    using xs by simp
  then have "length (take ?i xs @ drop (Suc ?i) xs) = n"
    using Suc.prems by simp
  then have "mset (shuffle_steps n rnd (take ?i xs @ drop (Suc ?i) xs))
             = mset (take ?i xs @ drop (Suc ?i) xs)"
    by (rule Suc.IH)
  then have "mset (shuffle_steps (Suc n) rnd xs)
             = add_mset (xs ! ?i) (mset (take ?i xs @ drop (Suc ?i) xs))"
    using xs by (simp add: Let_def)
  with mset_remove_nth [OF i] show ?case by simp
qed

lemma mset_shuffle: "mset (shuffle rnd xs) = mset xs"
  by (simp add: shuffle_def mset_shuffle_steps)

lemma set_shuffle: "set (shuffle rnd xs) = set xs"
  using mset_shuffle [of rnd xs] by (rule mset_eq_setD)

lemma length_shuffle: "length (shuffle rnd xs) = length xs"
  using mset_shuffle [of rnd xs] by (rule mset_eq_length)

lemma pick_in_class: "cls \<noteq> [] \<Longrightarrow> pick cls r \<in> set cls"
  by (simp add: pick_def)

lemma class_nonempty:
  "lower_case_letters \<noteq> []" "upper_case_letters \<noteq> []" "digit_chars \<noteq> []"
  "special_chars \<noteq> []"
  by (simp_all add: lower_case_letters_def upper_case_letters_def digit_chars_def
        special_chars_def)

lemma length_generatePassword:
  assumes "24 \<le> len"
  shows "length (generatePassword rnd len lower upper digits special) = nat len"
proof -
  let ?required =
    "(if lower > 0 then [pick lower_case_letters (rnd 0)] else []) @
     (if upper > 0 then [pick upper_case_letters (rnd 1)] else []) @
     (if digits > 0 then [pick digit_chars (rnd 2)] else []) @
     (if special > 0 then [pick special_chars (rnd 3)] else [])"
  have "length ?required \<le> 4"
    by simp
  moreover have "24 \<le> nat len"
    using assms by simp
  ultimately have "length ?required + (nat len - length ?required) = nat len"
    by linarith
  then show ?thesis
    unfolding generatePassword_def Let_def length_shuffle length_append length_map length_upt
    by (simp only: diff_zero)
qed

lemma int_length_generatePassword:
  "int (length (generatePassword rnd (max m 24) lower upper digits special)) = max m 24"
proof -
  have "24 \<le> max m 24"
    by simp
  then have "length (generatePassword rnd (max m 24) lower upper digits special)
             = nat (max m 24)"
    by (rule length_generatePassword)
  moreover have "0 \<le> max m 24"
    by linarith
  ultimately show ?thesis
    by (simp only: int_nat_eq if_True)
qed

lemma generatePassword_lower:
  "(lower > 0 \<and>
    \<not> has_char_of lower_case_letters (generatePassword rnd len lower upper digits special))
   = False"
  unfolding has_char_of_def generatePassword_def Let_def set_shuffle
  using pick_in_class [OF class_nonempty(1), of "rnd 0"] by auto

lemma generatePassword_upper:
  "(upper > 0 \<and>
    \<not> has_char_of upper_case_letters (generatePassword rnd len lower upper digits special))
   = False"
  unfolding has_char_of_def generatePassword_def Let_def set_shuffle
  using pick_in_class [OF class_nonempty(2), of "rnd 1"] by auto

lemma generatePassword_digits:
  "(digits > 0 \<and>
    \<not> has_char_of digit_chars (generatePassword rnd len lower upper digits special))
   = False"
  unfolding has_char_of_def generatePassword_def Let_def set_shuffle
  using pick_in_class [OF class_nonempty(3), of "rnd 2"] by auto

lemma generatePassword_special:
  "(special > 0 \<and>
    \<not> has_char_of special_chars (generatePassword rnd len lower upper digits special))
   = False"
  unfolding has_char_of_def generatePassword_def Let_def set_shuffle
  using pick_in_class [OF class_nonempty(4), of "rnd 3"] by auto

lemma password_generate:
  "password (formValues (generate rnd s)) =
     generatePassword rnd (max (length_min (policy s)) 24)
       (include_lower_case (policy s)) (include_upper_case (policy s))
       (include_digits (policy s)) (include_special (policy s))"
  by (simp add: generate_def Let_def max_def)

lemma passwordConfirm_generate:
  "passwordConfirm (formValues (generate rnd s)) = password (formValues (generate rnd s))"
  by (simp add: generate_def Let_def)

lemma validate_generated:
  "validate_policy
     (generatePassword rnd (max (length_min P) 24) (include_lower_case P)
        (include_upper_case P) (include_digits P) (include_special P)) P =
   (if length_max P < max (length_min P) 24 then [LengthMax] else [])"
  unfolding validate_policy_def int_length_generatePassword generatePassword_lower
    generatePassword_upper generatePassword_digits generatePassword_special
  by simp

text \<open>
  Claim C3, as amended. For every policy \<open>P\<close> and every random source, the
  password that \<open>generate\<close> writes into both form fields has length
  \<open>max (lengthMin, 24)\<close>, meets the lower length bound and holds a character of
  every class whose count in \<open>P\<close> is positive: the only rule it can violate is
  the upper length bound, and it passes the whole validation whenever
  \<open>max (lengthMin, 24) \<le> lengthMax\<close>.
\<close>

theorem generated_password_policy:
  "policy s = P \<Longrightarrow>
     int (length (password (formValues (generate rnd s)))) = max (length_min P) 24 \<and>
     passwordConfirm (formValues (generate rnd s)) = password (formValues (generate rnd s)) \<and>
     validate_policy (password (formValues (generate rnd s))) P =
       (if length_max P < max (length_min P) 24 then [LengthMax] else []) \<and>
     (max (length_min P) 24 \<le> length_max P \<longrightarrow>
        validate_policy (password (formValues (generate rnd s))) P = [])"
  by (auto simp: password_generate passwordConfirm_generate validate_generated
        int_length_generatePassword)

theorem generated_password_policy_witness:
  "policy example_page = example_policy \<and>
   max (length_min example_policy) 24 \<le> length_max example_policy \<and>
   int (length (password (formValues (generate (\<lambda>i. i * 7 + 3) example_page)))) = 24 \<and>
   validate_policy (password (formValues (generate (\<lambda>i. i * 7 + 3) example_page)))
     example_policy = []"
  using generated_password_policy [of example_page example_policy "\<lambda>i. i * 7 + 3"]
  by (simp add: example_defs)

text \<open>
  Claim C3 as written fails for a policy whose upper bound is below 24: with
  lengths from 10 to 16 the generated password has 24 characters and violates
  the upper length bound.
\<close>

theorem generated_password_policy_counterexample:
  "length_min (example_policy\<lparr>length_max := 16\<rparr>) = 10 \<and>
   length_max (example_policy\<lparr>length_max := 16\<rparr>) = 16 \<and>
   int (length (password (formValues
      (generate (\<lambda>i. i * 7 + 3) (example_page\<lparr>policy := example_policy\<lparr>length_max := 16\<rparr>\<rparr>)))))
     = 24 \<and>
   validate_policy
     (password (formValues
        (generate (\<lambda>i. i * 7 + 3) (example_page\<lparr>policy := example_policy\<lparr>length_max := 16\<rparr>\<rparr>))))
     (example_policy\<lparr>length_max := 16\<rparr>) = [LengthMax]"
  using validate_generated [of "\<lambda>i. i * 7 + 3" "example_policy\<lparr>length_max := 16\<rparr>"]
    int_length_generatePassword [of "\<lambda>i. i * 7 + 3" 10 1 1 1 1]
  by (simp add: password_generate example_policy_def)


end
